theory Spec2Isabelle
  imports Main "HOL-Library.Multiset"
begin

section \<open>JavaScript values and errors\<close>

text \<open>
  The primitive JavaScript values that reach the code under study: token payload fields,
  request body fields and the bound parameters of a query. Numbers are the integers
  (employee counts, salaries, placeholder indices); \<open>NaN\<close>, fractions and objects are
  outside the model.
\<close>

datatype jsval = Undefined | Null | Bool bool | Num int | Str string

text \<open>ToBoolean: what \<open>if (v)\<close>, \<open>!v\<close>, \<open>v && w\<close> and \<open>v || w\<close> test.\<close>

fun truthy :: "jsval \<Rightarrow> bool" where
  "truthy Undefined = False"
| "truthy Null = False"
| "truthy (Bool b) = b"
| "truthy (Num n) = (n \<noteq> 0)"
| "truthy (Str s) = (s \<noteq> [])"

text \<open>The operators \<open>!v\<close> and \<open>v === w\<close> on primitives.\<close>

definition js_not :: "jsval \<Rightarrow> jsval" where
  "js_not v = Bool (\<not> truthy v)"

definition strict_eq :: "jsval \<Rightarrow> jsval \<Rightarrow> bool" where
  "strict_eq v w = (v = w)"

text \<open>
  The error classes of \<open>expressError\<close> that the code throws, and the \<open>TypeError\<close> the
  runtime throws when a property of \<open>undefined\<close> is read.
\<close>

datatype error = UnauthorizedError | BadRequestError string | TypeError

section \<open>Strings: decimal numerals and \<open>Array.prototype.join\<close>\<close>

definition digit_char :: "nat \<Rightarrow> char" where
  "digit_char d = ''0123456789'' ! d"

text \<open>
  ToString of a non-negative integer, as a template literal \<open>${idx + 1}\<close> renders it.
\<close>

fun show_nat :: "nat \<Rightarrow> string" where
  "show_nat n = (if n < 10 then [digit_char n] else show_nat (n div 10) @ [digit_char (n mod 10)])"

declare show_nat.simps [simp del]

text \<open>Reading a decimal numeral back; used to show that \<open>show_nat\<close> loses nothing.\<close>

definition digit_val :: "char \<Rightarrow> nat" where
  "digit_val c = of_char c - 48"

definition read_nat :: "string \<Rightarrow> nat" where
  "read_nat s = foldl (\<lambda>a c. 10 * a + digit_val c) 0 s"

fun js_join :: "string \<Rightarrow> string list \<Rightarrow> string" where
  "js_join sep [] = []"
| "js_join sep [x] = x"
| "js_join sep (x # y # ys) = x @ sep @ js_join sep (y # ys)"

text \<open>
  \<open>xs[i] = v\<close> on a JavaScript array: inside the array the element is replaced, at the
  end the array grows by one, beyond the end the gap reads as \<open>undefined\<close>.
\<close>

definition array_set :: "jsval list \<Rightarrow> nat \<Rightarrow> jsval \<Rightarrow> jsval list" where
  "array_set xs i v =
     (if i < length xs then xs[i := v]
      else xs @ replicate (i - length xs) Undefined @ [v])"

section \<open>Objects: property order and inherited properties\<close>

text \<open>
  An object is given by its own enumerable string-keyed properties in the order they
  were created (keys are distinct). \<open>Object.keys\<close> and \<open>Object.values\<close> do not
  enumerate in that order: keys that are array indices (the canonical decimal numeral
  of an integer below \<open>2^32 - 1\<close>) come first, in ascending numeric order, and the
  other keys follow in creation order.
\<close>

definition is_digit :: "char \<Rightarrow> bool" where
  "is_digit c = (c \<in> set ''0123456789'')"

definition is_array_index :: "string \<Rightarrow> bool" where
  "is_array_index s =
     (case s of
        [] \<Rightarrow> False
      | c # cs \<Rightarrow>
          list_all is_digit s
          \<and> (if c = CHR ''0'' then cs = [] else True)
          \<and> read_nat s < 4294967295)"

definition Object_entries :: "(string \<times> 'v) list \<Rightarrow> (string \<times> 'v) list" where
  "Object_entries obj =
     sort_key (\<lambda>e. read_nat (fst e)) (filter (\<lambda>e. is_array_index (fst e)) obj)
       @ filter (\<lambda>e. \<not> is_array_index (fst e)) obj"

definition Object_keys :: "(string \<times> 'v) list \<Rightarrow> string list" where
  "Object_keys obj = map fst (Object_entries obj)"

definition Object_values :: "(string \<times> 'v) list \<Rightarrow> 'v list" where
  "Object_values obj = map snd (Object_entries obj)"

text \<open>
  A property read \<open>obj[key]\<close> that finds no own property continues in the prototype.
  For an object literal that is \<open>Object.prototype\<close>, whose properties are built-in
  functions and, for \<open>__proto__\<close>, the prototype object itself: all truthy.
  \<open>Object_prototype\<close> gives, for each inherited name, the text a template literal
  renders for its value under Node.
\<close>

definition native_function :: "string \<Rightarrow> string" where
  "native_function fname = ''function '' @ fname @ ''() { [native code] }''"

definition Object_prototype :: "string \<Rightarrow> string option" where
  "Object_prototype key =
     (if key = ''constructor'' then Some (native_function ''Object'')
      else if key \<in> set [''__defineGetter__'', ''__defineSetter__'', ''hasOwnProperty'',
                ''__lookupGetter__'', ''__lookupSetter__'', ''isPrototypeOf'',
                ''propertyIsEnumerable'', ''toString'', ''valueOf'', ''toLocaleString'']
      then Some (native_function key)
      else if key = ''__proto__'' then Some ''[object Object]''
      else None)"

section \<open>helpers/sql: \<open>sqlForPartialUpdate\<close>\<close>

text \<open>
  Both builders return an object with a \<open>values\<close> array beside the SQL text
  (\<open>{setCols, values}\<close>, \<open>{whereClause, values}\<close>); the field is written \<open>values'\<close>.
  The values of \<open>dataToUpdate\<close> are never inspected, so their type is a parameter.
  \<open>jsToSql\<close> is an object literal whose own properties are column names; it is given
  by the dictionary of those own properties.
\<close>

record 'v with_values =
  values' :: "'v list"

record 'v set_fragment = "'v with_values" +
  setCols :: string

text \<open>
  The text that \<open>${jsToSql[colName] || colName}\<close> renders: an own entry when it is
  truthy (not the empty string), the field name when the own entry is empty, otherwise
  an inherited property when there is one, otherwise the field name.
\<close>

definition column_name :: "(string \<rightharpoonup> string) \<Rightarrow> string \<Rightarrow> string" where
  "column_name jsToSql colName =
     (case jsToSql colName of
        Some c \<Rightarrow> if c \<noteq> [] then c else colName
      | None \<Rightarrow>
          (case Object_prototype colName of
             Some rendered \<Rightarrow> rendered
           | None \<Rightarrow> colName))"

text \<open>The array \<open>cols\<close>: \<open>keys.map((colName, idx) => `"${...}"=$${idx + 1}`)\<close>.\<close>

definition sql_cols :: "string list \<Rightarrow> (string \<rightharpoonup> string) \<Rightarrow> string list" where
  "sql_cols keys jsToSql =
     map (\<lambda>(colName, idx). ''\"'' @ column_name jsToSql colName @ ''\"=$'' @ show_nat (idx + 1))
       (zip keys [0 ..< length keys])"

definition sqlForPartialUpdate ::
  "(string \<times> 'v) list \<Rightarrow> (string \<rightharpoonup> string) \<Rightarrow> error + 'v set_fragment" where
  "sqlForPartialUpdate dataToUpdate jsToSql =
     (let keys = Object_keys dataToUpdate in
      if length keys = 0 then Inl (BadRequestError ''No data'')
      else Inr \<lparr>values' = Object_values dataToUpdate,
                setCols = js_join '', '' (sql_cols keys jsToSql)\<rparr>)"

section \<open>middleware/auth: the authorization decisions\<close>

text \<open>
  What the middleware reads: \<open>res.locals.user\<close> (absent, or the token payload with its
  \<open>username\<close> and \<open>isAdmin\<close> fields, \<open>undefined\<close> when the payload lacks them),
  \<open>req.params.username\<close> and \<open>req.body.password\<close> (\<open>undefined\<close> when the body has no such
  key).
\<close>

record identity =
  username :: jsval
  isAdmin :: jsval

record request =
  locals_user :: "identity option"
  params_username :: string
  body_password :: jsval

text \<open>
  Each middleware ends in exactly one call: \<open>next()\<close>, or \<open>next(err)\<close> from its
  \<open>catch\<close> block with whatever was thrown inside \<open>try\<close>.
\<close>

datatype outcome = Next | NextErr error

text \<open>Reading a property of \<open>res.locals.user\<close> throws when there is no user.\<close>

definition user_prop :: "request \<Rightarrow> (identity \<Rightarrow> jsval) \<Rightarrow> error + jsval" where
  "user_prop r field =
     (case locals_user r of None \<Rightarrow> Inl TypeError | Some u \<Rightarrow> Inr (field u))"

definition ensureLoggedIn :: "request \<Rightarrow> outcome" where
  "ensureLoggedIn r =
     (if locals_user r = None then NextErr UnauthorizedError else Next)"

text \<open>The test is \<open>!res.locals.user.isAdmin === true\<close>, which parses as \<open>(!x) === true\<close>.\<close>

definition ensureAdmin :: "request \<Rightarrow> outcome" where
  "ensureAdmin r =
     (case user_prop r isAdmin of
        Inl e \<Rightarrow> NextErr e
      | Inr a \<Rightarrow>
          if strict_eq (js_not a) (Bool True) then NextErr UnauthorizedError else Next)"

definition ensureUserOrAdmin :: "request \<Rightarrow> outcome" where
  "ensureUserOrAdmin r =
     (if truthy (body_password r) then
        (case user_prop r username of
           Inl e \<Rightarrow> NextErr e
         | Inr n \<Rightarrow>
             if \<not> strict_eq n (Str (params_username r)) then NextErr UnauthorizedError
             else Next)
      else
        (case user_prop r username of
           Inl e \<Rightarrow> NextErr e
         | Inr n \<Rightarrow>
             if strict_eq n (Str (params_username r)) then Next
             else
               (case user_prop r isAdmin of
                  Inl e \<Rightarrow> NextErr e
                | Inr a \<Rightarrow>
                    if \<not> strict_eq a (Bool True) then NextErr UnauthorizedError
                    else Next)))"

section \<open>models: the WHERE-clause builders\<close>

record where_fragment = "jsval with_values" +
  whereClause :: string

text \<open>
  The local arrays \<open>clauses\<close> and \<open>values\<close> of \<open>_makeWhereClause\<close> (the latter written
  \<open>vals\<close>); the company builder also keeps \<open>indexPointer\<close>.
\<close>

record arrays =
  clauses :: "string list"
  vals :: "jsval list"

record company_builder = arrays +
  indexPointer :: nat

text \<open>
  Search terms after destructuring: a key that is absent is \<open>None\<close> (it reads as
  \<open>undefined\<close>); \<open>name\<close> and \<open>title\<close> are strings and the bounds are numbers, as the
  routes pass them. \<open>hasEquity\<close> is only compared with \<open>===\<close> and may be any primitive.
\<close>

definition truthy_str :: "string option \<Rightarrow> bool" where
  "truthy_str x = (case x of None \<Rightarrow> False | Some s \<Rightarrow> truthy (Str s))"

definition truthy_num :: "int option \<Rightarrow> bool" where
  "truthy_num x = (case x of None \<Rightarrow> False | Some n \<Rightarrow> truthy (Num n))"

record company_terms =
  name :: "string option"
  minEmployees :: "int option"
  maxEmployees :: "int option"

text \<open>
  One branch body of the company builder: push the clause text ending in
  \<open>$${indexPointer + 1}\<close>, store the value at \<open>values[indexPointer]\<close>, advance the pointer.
\<close>

definition company_bind :: "company_builder \<Rightarrow> string \<Rightarrow> jsval \<Rightarrow> company_builder" where
  "company_bind b text v =
     \<lparr>clauses = clauses b @ [text @ show_nat (indexPointer b + 1)],
      vals = array_set (vals b) (indexPointer b) v,
      indexPointer = indexPointer b + 1\<rparr>"

definition Company_makeWhereClause :: "company_terms \<Rightarrow> error + where_fragment" where
  "Company_makeWhereClause searchTerms =
     (let b0 = \<lparr>clauses = [], vals = [], indexPointer = 0\<rparr>;
          b1 = (if truthy_str (name searchTerms)
                then company_bind b0 ''name ILIKE $''
                       (Str (''%'' @ the (name searchTerms) @ ''%''))
                else b0);
          b2 = (if truthy_num (minEmployees searchTerms)
                then company_bind b1 ''num_employees >= $''
                       (Num (the (minEmployees searchTerms)))
                else b1)
      in if truthy_num (maxEmployees searchTerms) then
           (if truthy_num (minEmployees searchTerms)
               \<and> the (minEmployees searchTerms) > the (maxEmployees searchTerms)
            then Inl (BadRequestError ''maxEmployees must be higher than minEmployees'')
            else
              (let b3 = company_bind b2 ''num_employees <= $''
                          (Num (the (maxEmployees searchTerms)))
               in Inr \<lparr>values' = vals b3, whereClause = js_join '' AND '' (clauses b3)\<rparr>))
         else Inr \<lparr>values' = vals b2, whereClause = js_join '' AND '' (clauses b2)\<rparr>)"

record job_terms =
  title :: "string option"
  minSalary :: "int option"
  hasEquity :: jsval

text \<open>
  One branch body of the job builder: push the clause text ending in
  \<open>$${values.length + 1}\<close>, then push the value.
\<close>

definition job_bind :: "arrays \<Rightarrow> string \<Rightarrow> jsval \<Rightarrow> arrays" where
  "job_bind b text v =
     \<lparr>clauses = clauses b @ [text @ show_nat (length (vals b) + 1)],
      vals = vals b @ [v]\<rparr>"

text \<open>The two arrays of the job builder just before the join.\<close>

definition job_arrays :: "job_terms \<Rightarrow> arrays" where
  "job_arrays searchTerms =
     (let b0 = \<lparr>clauses = [], vals = []\<rparr>;
          b1 = (if truthy_str (title searchTerms)
                then job_bind b0 ''title ILIKE $''
                       (Str (''%'' @ the (title searchTerms) @ ''%''))
                else b0);
          b2 = (if truthy_num (minSalary searchTerms)
                then job_bind b1 ''salary >= $'' (Num (the (minSalary searchTerms)))
                else b1)
      in if strict_eq (hasEquity searchTerms) (Str ''true'')
         then b2\<lparr>clauses := clauses b2 @ [''equity > 0.0'']\<rparr>
         else b2\<lparr>clauses := clauses b2 @ [''1=1'']\<rparr>)"

definition Job_makeWhereClause :: "job_terms \<Rightarrow> where_fragment" where
  "Job_makeWhereClause searchTerms =
     (let b = job_arrays searchTerms
      in \<lparr>values' = vals b, whereClause = js_join '' AND '' (clauses b)\<rparr>)"

section \<open>Decimal numerals and joins\<close>

lemma digit_val_digit_char: "d < 10 \<Longrightarrow> digit_val (digit_char d) = d"
proof -
  assume "d < 10"
  then have "d \<in> {0, 1, 2, 3, 4, 5, 6, 7, 8, 9}" by auto
  then show ?thesis by (auto simp: digit_val_def digit_char_def)
qed

lemma is_digit_digit_char: "d < 10 \<Longrightarrow> is_digit (digit_char d)"
proof -
  assume "d < 10"
  then have "d \<in> {0, 1, 2, 3, 4, 5, 6, 7, 8, 9}" by auto
  then show ?thesis by (auto simp: is_digit_def digit_char_def)
qed

lemma read_nat_snoc: "read_nat (s @ [c]) = 10 * read_nat s + digit_val c"
  by (simp add: read_nat_def)

lemma read_show_nat: "read_nat (show_nat n) = n"
proof (induction n rule: show_nat.induct)
  case (1 n)
  show ?case
  proof (cases "n < 10")
    case True
    then show ?thesis
      by (simp add: show_nat.simps [of n] read_nat_def digit_val_digit_char)
  next
    case False
    with 1 have "read_nat (show_nat (n div 10)) = n div 10" by simp
    with False show ?thesis
      by (simp add: show_nat.simps [of n] read_nat_snoc digit_val_digit_char)
  qed
qed

lemma show_nat_digits: "list_all is_digit (show_nat n)"
proof (induction n rule: show_nat.induct)
  case (1 n)
  show ?case
  proof (cases "n < 10")
    case True
    then show ?thesis by (simp add: show_nat.simps [of n] is_digit_digit_char)
  next
    case False
    with 1 show ?thesis by (simp add: show_nat.simps [of n] is_digit_digit_char)
  qed
qed

lemma show_nat_nonempty: "show_nat n \<noteq> []"
  by (simp add: show_nat.simps [of n])

lemma digit_char_nonzero: "0 < d \<Longrightarrow> d < 10 \<Longrightarrow> digit_char d \<noteq> CHR ''0''"
proof -
  assume "0 < d" and "d < 10"
  then have "d \<in> {1, 2, 3, 4, 5, 6, 7, 8, 9}" by auto
  then show ?thesis by (auto simp: digit_char_def)
qed

lemma show_nat_no_leading_zero: "0 < n \<Longrightarrow> hd (show_nat n) \<noteq> CHR ''0''"
proof (induction n rule: show_nat.induct)
  case (1 n)
  show ?case
  proof (cases "n < 10")
    case True
    with "1.prems" show ?thesis
      by (simp add: show_nat.simps [of n] digit_char_nonzero)
  next
    case False
    then have "0 < n div 10" by simp
    with False "1.IH" have "hd (show_nat (n div 10)) \<noteq> CHR ''0''" by simp
    with False show ?thesis
      by (simp add: show_nat.simps [of n] show_nat_nonempty)
  qed
qed

lemma show_nat_inj: "show_nat m = show_nat n \<Longrightarrow> m = n"
  by (metis read_show_nat)

lemma distinct_placeholders: "distinct (map (\<lambda>i. ''$'' @ show_nat (i + 1)) [0 ..< n])"
  by (auto simp: distinct_map intro!: inj_onI dest: show_nat_inj)

lemma js_join_Cons: "js_join sep (x # xs) = x @ concat (map (\<lambda>y. sep @ y) xs)"
  by (induction xs arbitrary: x) auto

lemma js_join_concat:
  "xs \<noteq> [] \<Longrightarrow> js_join sep xs = hd xs @ concat (map (\<lambda>y. sep @ y) (tl xs))"
  by (cases xs) (simp_all add: js_join_Cons)

lemma js_join_snoc_nonempty: "x \<noteq> [] \<Longrightarrow> js_join sep (cs @ [x]) \<noteq> []"
  by (induction sep cs rule: js_join.induct) auto

section \<open>Property order of \<open>Object.keys\<close> and \<open>Object.values\<close>\<close>

lemma length_Object_entries: "length (Object_entries obj) = length obj"
  by (simp add: Object_entries_def sum_length_filter_compl)

lemma Object_entries_Nil_iff: "(Object_entries obj = []) = (obj = [])"
  using length_Object_entries [of obj] by (metis length_0_conv)

lemma mset_Object_entries: "mset (Object_entries obj) = mset obj"
  by (simp add: Object_entries_def)

lemma Object_entries_no_index:
  "list_all (\<lambda>e. \<not> is_array_index (fst e)) obj \<Longrightarrow> Object_entries obj = obj"
  by (simp add: Object_entries_def list_all_iff filter_empty_conv filter_id_conv)

lemma filter_index_Object_entries:
  "filter (\<lambda>e. is_array_index (fst e)) (Object_entries obj) =
     sort_key (\<lambda>e. read_nat (fst e)) (filter (\<lambda>e. is_array_index (fst e)) obj)"
  by (simp add: Object_entries_def filter_sort)

lemma filter_other_Object_entries:
  "filter (\<lambda>e. \<not> is_array_index (fst e)) (Object_entries obj) =
     filter (\<lambda>e. \<not> is_array_index (fst e)) obj"
  by (simp add: Object_entries_def filter_sort)

lemma Object_entries_split:
  "Object_entries obj =
     filter (\<lambda>e. is_array_index (fst e)) (Object_entries obj)
       @ filter (\<lambda>e. \<not> is_array_index (fst e)) (Object_entries obj)"
proof -
  have "filter (\<lambda>e. is_array_index (fst e)) (Object_entries obj)
          @ filter (\<lambda>e. \<not> is_array_index (fst e)) (Object_entries obj)
        = sort_key (\<lambda>e. read_nat (fst e)) (filter (\<lambda>e. is_array_index (fst e)) obj)
          @ filter (\<lambda>e. \<not> is_array_index (fst e)) obj"
    by (simp only: filter_index_Object_entries filter_other_Object_entries)
  then show ?thesis by (simp add: Object_entries_def)
qed

lemma sorted_index_Object_entries:
  "sorted (map (\<lambda>e. read_nat (fst e))
     (filter (\<lambda>e. is_array_index (fst e)) (Object_entries obj)))"
  by (simp only: filter_index_Object_entries sorted_sort_key)

section \<open>Properties of \<open>sqlForPartialUpdate\<close>\<close>

lemma sql_cols_eq:
  "sql_cols keys jsToSql =
     map (\<lambda>i. ''\"'' @ column_name jsToSql (keys ! i) @ ''\"=$'' @ show_nat (i + 1))
       [0 ..< length keys]"
  by (rule nth_equalityI) (simp_all add: sql_cols_def)

lemma sqlForPartialUpdate_result:
  assumes "dataToUpdate \<noteq> []"
  shows "sqlForPartialUpdate dataToUpdate jsToSql =
     Inr \<lparr>values' = map snd (Object_entries dataToUpdate),
          setCols = js_join '', ''
            (map (\<lambda>i. ''\"'' @ column_name jsToSql (fst (Object_entries dataToUpdate ! i))
                       @ ''\"=$'' @ show_nat (i + 1))
               [0 ..< length dataToUpdate])\<rparr>"
proof -
  have "sql_cols (Object_keys dataToUpdate) jsToSql =
      map (\<lambda>i. ''\"'' @ column_name jsToSql (fst (Object_entries dataToUpdate ! i))
                 @ ''\"=$'' @ show_nat (i + 1))
        [0 ..< length dataToUpdate]"
    by (simp add: sql_cols_eq Object_keys_def length_Object_entries)
  with assms show ?thesis
    by (simp add: sqlForPartialUpdate_def Object_keys_def Object_values_def
        Object_entries_Nil_iff)
qed

text \<open>
  Claim C5, as the code has it. For a non-empty update map of N fields the call
  succeeds. The fields are taken in the order of \<open>Object.keys\<close>: the same fields as
  supplied, each once; keys that are array indices first, in ascending numeric order;
  all other keys after them, in insertion order; so the order is the insertion order
  whenever no key is an array index. \<open>setCols\<close> is the first clause followed by each
  further clause behind \<open>", "\<close>, N clauses in all; clause i (counting from 0) is the
  quoted column for the i-th field followed by \<open>=$\<close> and the decimal numeral of
  \<open>i + 1\<close> (digits only, no leading zero); \<open>values\<close> has N entries and its i-th
  entry is the value of the i-th field; the placeholders \<open>$1\<close> .. \<open>$N\<close> are pairwise
  different.
\<close>

theorem sqlForPartialUpdate_clauses_values:
  assumes "dataToUpdate \<noteq> []"
  shows "\<exists>frag cs.
           sqlForPartialUpdate dataToUpdate jsToSql = Inr frag
           \<and> cs = map (\<lambda>i. ''\"'' @ column_name jsToSql (fst (Object_entries dataToUpdate ! i))
                             @ ''\"='' @ ''$'' @ show_nat (i + 1))
                    [0 ..< length dataToUpdate]
           \<and> setCols frag = hd cs @ concat (map (\<lambda>c. '', '' @ c) (tl cs))
           \<and> length cs = length dataToUpdate
           \<and> values' frag = map snd (Object_entries dataToUpdate)
           \<and> length (values' frag) = length dataToUpdate
           \<and> mset (Object_entries dataToUpdate) = mset dataToUpdate
           \<and> Object_entries dataToUpdate =
               filter (\<lambda>e. is_array_index (fst e)) (Object_entries dataToUpdate)
                 @ filter (\<lambda>e. \<not> is_array_index (fst e)) (Object_entries dataToUpdate)
           \<and> sorted (map (\<lambda>e. read_nat (fst e))
                 (filter (\<lambda>e. is_array_index (fst e)) (Object_entries dataToUpdate)))
           \<and> filter (\<lambda>e. \<not> is_array_index (fst e)) (Object_entries dataToUpdate)
               = filter (\<lambda>e. \<not> is_array_index (fst e)) dataToUpdate
           \<and> (list_all (\<lambda>e. \<not> is_array_index (fst e)) dataToUpdate
                \<longrightarrow> Object_entries dataToUpdate = dataToUpdate)
           \<and> (\<forall>i < length dataToUpdate.
                 read_nat (show_nat (i + 1)) = i + 1 \<and> list_all is_digit (show_nat (i + 1))
                 \<and> hd (show_nat (i + 1)) \<noteq> CHR ''0'')
           \<and> distinct (map (\<lambda>i. ''$'' @ show_nat (i + 1)) [0 ..< length dataToUpdate])"
proof -
  let ?cs = "map (\<lambda>i. ''\"'' @ column_name jsToSql (fst (Object_entries dataToUpdate ! i))
                       @ ''\"=$'' @ show_nat (i + 1))
               [0 ..< length dataToUpdate]"
  let ?frag = "\<lparr>values' = map snd (Object_entries dataToUpdate),
                setCols = js_join '', '' ?cs\<rparr>"
  from assms have ne: "?cs \<noteq> []" by simp
  have res: "sqlForPartialUpdate dataToUpdate jsToSql = Inr ?frag"
    using assms by (rule sqlForPartialUpdate_result)
  have cols: "setCols ?frag = hd ?cs @ concat (map (\<lambda>c. '', '' @ c) (tl ?cs))"
    using js_join_concat [OF ne, of "'', ''"] by simp
  have same: "?cs = map (\<lambda>i. ''\"'' @ column_name jsToSql (fst (Object_entries dataToUpdate ! i))
                             @ ''\"='' @ ''$'' @ show_nat (i + 1))
                    [0 ..< length dataToUpdate]"
    by simp
  have len: "length ?cs = length dataToUpdate"
    "length (values' ?frag) = length dataToUpdate"
    "values' ?frag = map snd (Object_entries dataToUpdate)"
    by (simp_all add: length_Object_entries)
  have num: "\<forall>i < length dataToUpdate.
      read_nat (show_nat (i + 1)) = i + 1 \<and> list_all is_digit (show_nat (i + 1))
      \<and> hd (show_nat (i + 1)) \<noteq> CHR ''0''"
    by (simp add: read_show_nat show_nat_digits show_nat_no_leading_zero)
  have ord: "list_all (\<lambda>e. \<not> is_array_index (fst e)) dataToUpdate
      \<longrightarrow> Object_entries dataToUpdate = dataToUpdate"
    by (simp add: Object_entries_no_index)
  show ?thesis
    apply (rule exI [where x = ?frag])
    apply (rule exI [where x = ?cs])
    apply (intro conjI)
                apply (rule res)
               apply (rule same)
              apply (rule cols)
             apply (rule len(1))
            apply (rule len(3))
           apply (rule len(2))
          apply (rule mset_Object_entries)
         apply (rule Object_entries_split)
        apply (rule sorted_index_Object_entries)
       apply (rule filter_other_Object_entries)
      apply (rule ord)
     apply (rule num)
    apply (rule distinct_placeholders)
    done
qed

theorem sqlForPartialUpdate_clauses_values_witness:
  "[(''firstName'', Str ''Aliya''), (''age'', Num 32), (''email'', Null)] \<noteq> []
   \<and> list_all (\<lambda>e. \<not> is_array_index (fst e))
       [(''firstName'', Str ''Aliya''), (''age'', Num 32), (''email'', Null)]
   \<and> sqlForPartialUpdate [(''firstName'', Str ''Aliya''), (''age'', Num 32), (''email'', Null)]
        [''firstName'' \<mapsto> ''first_name'']
     = Inr \<lparr>values' = [Str ''Aliya'', Num 32, Null],
            setCols = ''\"first_name\"=$1, \"age\"=$2, \"email\"=$3''\<rparr>"
proof -
  have idx: "list_all (\<lambda>e. \<not> is_array_index (fst e))
       [(''firstName'', Str ''Aliya''), (''age'', Num 32), (''email'', Null)]"
    by (simp add: is_array_index_def is_digit_def)
  have ne: "[(''firstName'', Str ''Aliya''), (''age'', Num 32), (''email'', Null)] \<noteq> []"
    by simp
  from sqlForPartialUpdate_clauses_values [OF ne, of "[''firstName'' \<mapsto> ''first_name'']"]
  obtain frag cs where
    r: "sqlForPartialUpdate [(''firstName'', Str ''Aliya''), (''age'', Num 32), (''email'', Null)]
          [''firstName'' \<mapsto> ''first_name''] = Inr frag"
    and c: "cs = map (\<lambda>i. ''\"'' @ column_name [''firstName'' \<mapsto> ''first_name'']
                  (fst (Object_entries
                     [(''firstName'', Str ''Aliya''), (''age'', Num 32), (''email'', Null)] ! i))
                @ ''\"='' @ ''$'' @ show_nat (i + 1))
              [0 ..< length [(''firstName'', Str ''Aliya''), (''age'', Num 32), (''email'', Null)]]"
    and s: "setCols frag = hd cs @ concat (map (\<lambda>c. '', '' @ c) (tl cs))"
    and v: "values' frag = map snd (Object_entries
             [(''firstName'', Str ''Aliya''), (''age'', Num 32), (''email'', Null)])"
    and o: "list_all (\<lambda>e. \<not> is_array_index (fst e))
              [(''firstName'', Str ''Aliya''), (''age'', Num 32), (''email'', Null)]
            \<longrightarrow> Object_entries
                  [(''firstName'', Str ''Aliya''), (''age'', Num 32), (''email'', Null)]
                = [(''firstName'', Str ''Aliya''), (''age'', Num 32), (''email'', Null)]"
    by blast
  from o idx have e: "Object_entries
        [(''firstName'', Str ''Aliya''), (''age'', Num 32), (''email'', Null)]
      = [(''firstName'', Str ''Aliya''), (''age'', Num 32), (''email'', Null)]"
    by blast
  have cs: "cs = [''\"first_name\"=$1'', ''\"age\"=$2'', ''\"email\"=$3'']"
    unfolding c e
    by (simp add: upt_rec column_name_def Object_prototype_def show_nat.simps digit_char_def)
  have "frag = \<lparr>values' = [Str ''Aliya'', Num 32, Null],
            setCols = ''\"first_name\"=$1, \"age\"=$2, \"email\"=$3''\<rparr>"
    using s v unfolding cs e by simp
  with r idx show ?thesis by simp
qed

text \<open>
  Claim C5 as stated fails on the order: in \<open>{b: "x", 1: "y"}\<close> the key \<open>b\<close> was
  inserted first, yet the first clause and the first value belong to the key \<open>1\<close>.
\<close>

theorem sqlForPartialUpdate_index_key_counterexample:
  "sqlForPartialUpdate [(''b'', Str ''x''), (''1'', Str ''y'')] Map.empty
     = Inr \<lparr>values' = [Str ''y'', Str ''x''], setCols = ''\"1\"=$1, \"b\"=$2''\<rparr>"
  by (simp add: sqlForPartialUpdate_def Object_keys_def Object_values_def Object_entries_def
      is_array_index_def is_digit_def read_nat_def digit_val_def sql_cols_def column_name_def
      Object_prototype_def show_nat.simps digit_char_def)

text \<open>
  Claim C6. The call fails exactly when the update map is empty, and the failure is
  then \<open>BadRequestError("No data")\<close>; every non-empty map yields a fragment. Whether
  the call fails does not depend on the values: replacing every value by its image
  under any function \<open>f\<close> leaves the failure unchanged.
\<close>

theorem sqlForPartialUpdate_fails_iff_empty:
  "(sqlForPartialUpdate dataToUpdate jsToSql = Inl (BadRequestError ''No data''))
     = (dataToUpdate = [])
   \<and> (\<exists>e. sqlForPartialUpdate dataToUpdate jsToSql = Inl e) = (dataToUpdate = [])
   \<and> (\<exists>frag. sqlForPartialUpdate dataToUpdate jsToSql = Inr frag) = (dataToUpdate \<noteq> [])
   \<and> (sqlForPartialUpdate (map (\<lambda>(k, v). (k, f v)) dataToUpdate) jsToSql = Inl e)
     = (sqlForPartialUpdate dataToUpdate jsToSql = Inl e)"
  by (simp add: sqlForPartialUpdate_def Object_keys_def Object_entries_Nil_iff)

theorem sqlForPartialUpdate_fails_iff_empty_witness:
  "sqlForPartialUpdate ([] :: (string \<times> jsval) list) Map.empty
     = Inl (BadRequestError ''No data'')
   \<and> (\<exists>frag. sqlForPartialUpdate [(''age'', Null)] Map.empty = Inr frag)"
  using sqlForPartialUpdate_fails_iff_empty
      [of "[] :: (string \<times> jsval) list" Map.empty "\<lambda>v. v" TypeError]
    sqlForPartialUpdate_fails_iff_empty
      [of "[(''age'', Null)]" Map.empty "\<lambda>v. v" TypeError]
  by simp

text \<open>
  How a column is chosen. A field with a non-empty own entry in the table takes that
  entry; a field with no own entry and no inherited property of that name keeps its
  own name; a field with no own entry whose name is an inherited property takes the
  rendered text of that property.
\<close>

lemma column_name_cases:
  "jsToSql field = Some c \<Longrightarrow> c \<noteq> [] \<Longrightarrow> column_name jsToSql field = c"
  "jsToSql field = None \<Longrightarrow> Object_prototype field = None \<Longrightarrow>
     column_name jsToSql field = field"
  "jsToSql field = None \<Longrightarrow> Object_prototype field = Some rendered \<Longrightarrow>
     column_name jsToSql field = rendered"
  by (simp_all add: column_name_def)

text \<open>
  Claim C9 says that a field that is not a key of the translation table keeps its own
  name as the column. In \<open>{constructor: "x"}\<close> the field \<open>constructor\<close> is not a key of
  the company table \<open>{numEmployees: "num_employees", logoUrl: "logo_url"}\<close>, yet the
  read \<open>jsToSql["constructor"]\<close> finds the inherited \<open>Object\<close> function, and the clause
  names the column by the text of that function.
\<close>

theorem sqlForPartialUpdate_inherited_name_column:
  "sqlForPartialUpdate [(''constructor'', Str ''x'')]
       [''numEmployees'' \<mapsto> ''num_employees'', ''logoUrl'' \<mapsto> ''logo_url'']
     = Inr \<lparr>values' = [Str ''x''],
            setCols = ''\"function Object() { [native code] }\"=$1''\<rparr>"
  by (simp add: sqlForPartialUpdate_def Object_keys_def Object_values_def Object_entries_def
      is_array_index_def is_digit_def sql_cols_def column_name_def Object_prototype_def
      native_function_def show_nat.simps digit_char_def)

section \<open>Properties of the authorization decisions\<close>

lemma user_prop_simps:
  "locals_user r = None \<Longrightarrow> user_prop r f = Inl TypeError"
  "locals_user r = Some u \<Longrightarrow> user_prop r f = Inr (f u)"
  by (simp_all add: user_prop_def)

text \<open>
  What \<open>ensureUserOrAdmin\<close> decides: it calls \<open>next()\<close> exactly when a user is present
  and either its username is the route's username or, provided \<open>req.body.password\<close> is
  not truthy, its \<open>isAdmin\<close> is the boolean \<open>true\<close>.
\<close>

lemma ensureUserOrAdmin_allows_iff:
  "(ensureUserOrAdmin r = Next) =
     (\<exists>u. locals_user r = Some u \<and>
        (if truthy (body_password r) then username u = Str (params_username r)
         else username u = Str (params_username r) \<or> isAdmin u = Bool True))"
  by (cases "locals_user r") (auto simp: ensureUserOrAdmin_def user_prop_simps strict_eq_def)

lemma ensureUserOrAdmin_examples:
  "ensureUserOrAdmin \<lparr>locals_user = Some \<lparr>username = Str ''bob'', isAdmin = Bool True\<rparr>,
      params_username = ''alice'', body_password = Str ''secret''\<rparr>
     = NextErr UnauthorizedError"
  "ensureUserOrAdmin \<lparr>locals_user = Some \<lparr>username = Str ''bob'', isAdmin = Bool True\<rparr>,
      params_username = ''alice'', body_password = Undefined\<rparr> = Next"
  "ensureUserOrAdmin \<lparr>locals_user = Some \<lparr>username = Str ''bob'', isAdmin = Bool False\<rparr>,
      params_username = ''bob'', body_password = Str ''secret''\<rparr> = Next"
  "ensureUserOrAdmin \<lparr>locals_user = Some \<lparr>username = Str ''bob'', isAdmin = Bool False\<rparr>,
      params_username = ''alice'', body_password = Undefined\<rparr>
     = NextErr UnauthorizedError"
  by (simp_all add: ensureUserOrAdmin_def user_prop_def strict_eq_def)

text \<open>
  Claim C1 says that a request whose body contains a password field is allowed only
  for the user named in the route, with no admin override. The code selects that
  branch with \<open>if (req.body.password)\<close>: the body \<open>{password: ""}\<close> contains a password
  field, the admin \<open>bob\<close> is not \<open>alice\<close>, and the request is allowed.
\<close>

theorem ensureUserOrAdmin_empty_password_admin_allowed:
  "Str '''' \<noteq> Undefined
   \<and> Str ''bob'' \<noteq> Str ''alice''
   \<and> ensureUserOrAdmin \<lparr>locals_user = Some \<lparr>username = Str ''bob'', isAdmin = Bool True\<rparr>,
        params_username = ''alice'', body_password = Str ''''\<rparr> = Next"
  by (simp add: ensureUserOrAdmin_def user_prop_def strict_eq_def)

text \<open>
  What \<open>ensureAdmin\<close> decides: it calls \<open>next()\<close> exactly when a user is present and
  its \<open>isAdmin\<close> is truthy, since \<open>!x === true\<close> holds exactly when \<open>x\<close> is falsy.
\<close>

lemma ensureAdmin_allows_iff:
  "(ensureAdmin r = Next) = (\<exists>u. locals_user r = Some u \<and> truthy (isAdmin u))"
  by (cases "locals_user r")
    (auto simp: ensureAdmin_def user_prop_simps strict_eq_def js_not_def)

text \<open>
  Claim C3 says that only the boolean \<open>true\<close> is admitted. The code admits the payload
  \<open>{username: "u1", isAdmin: "yes"}\<close>, whose \<open>isAdmin\<close> is a non-empty string.
\<close>

theorem ensureAdmin_truthy_string_allowed:
  "ensureAdmin \<lparr>locals_user = Some \<lparr>username = Str ''u1'', isAdmin = Str ''yes''\<rparr>,
      params_username = [], body_password = Undefined\<rparr> = Next"
  by (simp add: ensureAdmin_def user_prop_def strict_eq_def js_not_def)

text \<open>
  Which error each decision passes to \<open>next\<close>: \<open>ensureLoggedIn\<close> only ever signals
  \<open>UnauthorizedError\<close>; the other two signal \<open>UnauthorizedError\<close> when a user is
  present and \<open>TypeError\<close> when there is none.
\<close>

lemma ensureLoggedIn_denial:
  "ensureLoggedIn r = NextErr e \<Longrightarrow> e = UnauthorizedError \<and> locals_user r = None"
  by (auto simp: ensureLoggedIn_def split: if_splits)

lemma ensureAdmin_denial:
  "ensureAdmin r = NextErr e \<Longrightarrow>
     (e = TypeError \<and> locals_user r = None)
     \<or> (e = UnauthorizedError \<and> locals_user r \<noteq> None)"
  by (cases "locals_user r") (auto simp: ensureAdmin_def user_prop_simps split: if_splits)

lemma ensureUserOrAdmin_denial:
  "ensureUserOrAdmin r = NextErr e \<Longrightarrow>
     (e = TypeError \<and> locals_user r = None)
     \<or> (e = UnauthorizedError \<and> locals_user r \<noteq> None)"
  by (cases "locals_user r")
    (auto simp: ensureUserOrAdmin_def user_prop_simps split: if_splits)

text \<open>
  Claim C4 says that every denial signals \<open>UnauthorizedError\<close>, also for an absent
  identity. With no user, \<open>ensureAdmin\<close> and \<open>ensureUserOrAdmin\<close> (with or without a
  password in the body) pass a \<open>TypeError\<close> to \<open>next\<close>.
\<close>

theorem anonymous_denied_with_TypeError:
  "ensureAdmin \<lparr>locals_user = None, params_username = ''u1'', body_password = Undefined\<rparr>
     = NextErr TypeError
   \<and> ensureUserOrAdmin
       \<lparr>locals_user = None, params_username = ''u1'', body_password = Undefined\<rparr>
     = NextErr TypeError
   \<and> ensureUserOrAdmin
       \<lparr>locals_user = None, params_username = ''u1'', body_password = Str ''secret''\<rparr>
     = NextErr TypeError"
  by (simp add: ensureAdmin_def ensureUserOrAdmin_def user_prop_def)

section \<open>Properties of the WHERE-clause builders\<close>

lemma truthy_str_iff: "truthy_str x = (\<exists>s. x = Some s \<and> s \<noteq> [])"
  by (cases x) (simp_all add: truthy_str_def)

lemma truthy_num_iff: "truthy_num x = (\<exists>n. x = Some n \<and> n \<noteq> 0)"
  by (cases x) (simp_all add: truthy_num_def)

lemma job_arrays_clauses_snoc:
  "\<exists>cs. clauses (job_arrays t) =
     cs @ [if hasEquity t = Str ''true'' then ''equity > 0.0'' else ''1=1'']"
  by (simp add: job_arrays_def Let_def strict_eq_def)

text \<open>The job builder always ends with a clause, so its fragment is never empty.\<close>

lemma Job_makeWhereClause_nonempty: "whereClause (Job_makeWhereClause t) \<noteq> []"
proof -
  obtain cs where "clauses (job_arrays t) =
      cs @ [if hasEquity t = Str ''true'' then ''equity > 0.0'' else ''1=1'']"
    using job_arrays_clauses_snoc by blast
  then show ?thesis
    by (simp add: Job_makeWhereClause_def Let_def js_join_snoc_nonempty)
qed

text \<open>
  Claim C2 says that neither builder returns an empty fragment. The company builder
  has no fallback clause: on the empty filter map it returns the empty string.
\<close>

theorem Company_makeWhereClause_empty_fragment:
  "Company_makeWhereClause \<lparr>name = None, minEmployees = None, maxEmployees = None\<rparr>
     = Inr \<lparr>values' = [], whereClause = []\<rparr>"
  by (simp add: Company_makeWhereClause_def truthy_str_def truthy_num_def)

lemma Company_makeWhereClause_cases:
  "Company_makeWhereClause t =
     (if truthy_num (maxEmployees t) \<and> truthy_num (minEmployees t)
          \<and> the (minEmployees t) > the (maxEmployees t)
      then Inl (BadRequestError ''maxEmployees must be higher than minEmployees'')
      else Inr (projr (Company_makeWhereClause t)))"
  by (simp add: Company_makeWhereClause_def Let_def)

lemma range_guard_iff:
  "(truthy_num (maxEmployees t) \<and> truthy_num (minEmployees t)
      \<and> the (minEmployees t) > the (maxEmployees t))
   = (\<exists>mn mx. minEmployees t = Some mn \<and> maxEmployees t = Some mx
        \<and> mn \<noteq> 0 \<and> mx \<noteq> 0 \<and> mn > mx)"
  by (auto simp: truthy_num_iff)

text \<open>
  When the company builder fails: with
  \<open>BadRequestError("maxEmployees must be higher than minEmployees")\<close>, exactly when
  both bounds are present and non-zero and \<open>minEmployees > maxEmployees\<close>; in no other
  case and with no other error.
\<close>

lemma Company_makeWhereClause_fails_iff:
  "(Company_makeWhereClause t =
      Inl (BadRequestError ''maxEmployees must be higher than minEmployees''))
     = (\<exists>mn mx. minEmployees t = Some mn \<and> maxEmployees t = Some mx
          \<and> mn \<noteq> 0 \<and> mx \<noteq> 0 \<and> mn > mx)
   \<and> (\<exists>e. Company_makeWhereClause t = Inl e)
     = (\<exists>mn mx. minEmployees t = Some mn \<and> maxEmployees t = Some mx
          \<and> mn \<noteq> 0 \<and> mx \<noteq> 0 \<and> mn > mx)"
proof (cases "truthy_num (maxEmployees t) \<and> truthy_num (minEmployees t)
          \<and> the (minEmployees t) > the (maxEmployees t)")
  case True
  then have l: "Company_makeWhereClause t =
      Inl (BadRequestError ''maxEmployees must be higher than minEmployees'')"
    using Company_makeWhereClause_cases [of t] by presburger
  from True have r: "\<exists>mn mx. minEmployees t = Some mn \<and> maxEmployees t = Some mx
          \<and> mn \<noteq> 0 \<and> mx \<noteq> 0 \<and> mn > mx"
    using range_guard_iff [of t] by blast
  from l r show ?thesis by blast
next
  case False
  then have "Company_makeWhereClause t = Inr (projr (Company_makeWhereClause t))"
    using Company_makeWhereClause_cases [of t] by presburger
  then have l: "\<And>e. Company_makeWhereClause t \<noteq> Inl e"
    by (metis sum.distinct(1))
  from False have r: "\<not> (\<exists>mn mx. minEmployees t = Some mn \<and> maxEmployees t = Some mx
          \<and> mn \<noteq> 0 \<and> mx \<noteq> 0 \<and> mn > mx)"
    using range_guard_iff [of t] by blast
  from l r show ?thesis by blast
qed

lemma Company_makeWhereClause_range_examples:
  "Company_makeWhereClause \<lparr>name = None, minEmployees = Some 50, maxEmployees = Some 10\<rparr>
     = Inl (BadRequestError ''maxEmployees must be higher than minEmployees'')"
  "Company_makeWhereClause \<lparr>name = None, minEmployees = Some 10, maxEmployees = Some 50\<rparr>
     = Inr \<lparr>values' = [Num 10, Num 50],
            whereClause = ''num_employees >= $1 AND num_employees <= $2''\<rparr>"
  by (simp_all add: Company_makeWhereClause_def truthy_str_def truthy_num_def
      company_bind_def array_set_def show_nat.simps digit_char_def)

text \<open>
  Claim C7 says that the company builder fails whenever both bounds are present and
  \<open>minEmployees > maxEmployees\<close>. In \<open>{minEmployees: 5, maxEmployees: 0}\<close> both bounds
  are present and \<open>5 > 0\<close>, yet the test \<open>if (maxEmployees)\<close> skips the check and the
  builder returns a fragment that has lost the upper bound.
\<close>

theorem Company_makeWhereClause_zero_bound_no_error:
  "Company_makeWhereClause \<lparr>name = None, minEmployees = Some 5, maxEmployees = Some 0\<rparr>
     = Inr \<lparr>values' = [Num 5], whereClause = ''num_employees >= $1''\<rparr>"
  by (simp add: Company_makeWhereClause_def truthy_str_def truthy_num_def company_bind_def
      array_set_def show_nat.simps digit_char_def)



text \<open>
  Claim C10. In both builders a recognized key with a falsy value (the empty string
  for \<open>name\<close> and \<open>title\<close>, \<open>0\<close> for the numeric keys) gives the result of the same map
  without that key: no clause, no bound value. With a bound that is \<open>0\<close> the company
  builder never fails, whatever the other bound is.
\<close>

theorem falsy_term_as_absent:
  "Company_makeWhereClause (c\<lparr>name := Some ''''\<rparr>) = Company_makeWhereClause (c\<lparr>name := None\<rparr>)
   \<and> Company_makeWhereClause (c\<lparr>minEmployees := Some 0\<rparr>)
       = Company_makeWhereClause (c\<lparr>minEmployees := None\<rparr>)
   \<and> Company_makeWhereClause (c\<lparr>maxEmployees := Some 0\<rparr>)
       = Company_makeWhereClause (c\<lparr>maxEmployees := None\<rparr>)
   \<and> (\<forall>e. Company_makeWhereClause (c\<lparr>minEmployees := Some 0\<rparr>) \<noteq> Inl e)
   \<and> (\<forall>e. Company_makeWhereClause (c\<lparr>maxEmployees := Some 0\<rparr>) \<noteq> Inl e)
   \<and> Company_makeWhereClause \<lparr>name = Some '''', minEmployees = Some 0, maxEmployees = Some 0\<rparr>
       = Inr \<lparr>values' = [], whereClause = []\<rparr>
   \<and> Job_makeWhereClause (j\<lparr>title := Some ''''\<rparr>) = Job_makeWhereClause (j\<lparr>title := None\<rparr>)
   \<and> Job_makeWhereClause (j\<lparr>minSalary := Some 0\<rparr>)
       = Job_makeWhereClause (j\<lparr>minSalary := None\<rparr>)
   \<and> Job_makeWhereClause \<lparr>title = Some '''', minSalary = Some 0, hasEquity = Undefined\<rparr>
       = \<lparr>values' = [], whereClause = ''1=1''\<rparr>"
  by (simp add: Company_makeWhereClause_def Job_makeWhereClause_def job_arrays_def Let_def
      truthy_str_def truthy_num_def strict_eq_def)

theorem falsy_term_as_absent_witness:
  "Company_makeWhereClause \<lparr>name = Some ''c'', minEmployees = Some 0, maxEmployees = Some 3\<rparr>
     = Inr \<lparr>values' = [Str ''%c%'', Num 3],
            whereClause = ''name ILIKE $1 AND num_employees <= $2''\<rparr>
   \<and> Company_makeWhereClause \<lparr>name = Some ''c'', minEmployees = None, maxEmployees = Some 3\<rparr>
     = Inr \<lparr>values' = [Str ''%c%'', Num 3],
            whereClause = ''name ILIKE $1 AND num_employees <= $2''\<rparr>"
  using falsy_term_as_absent
    [of "\<lparr>name = Some ''c'', minEmployees = Some 7, maxEmployees = Some 3\<rparr>"
        "\<lparr>title = None, minSalary = None, hasEquity = Undefined\<rparr>"]
  by (simp add: Company_makeWhereClause_def truthy_str_def truthy_num_def company_bind_def
      array_set_def show_nat.simps digit_char_def)

end
